theory Spec2Isabelle
  imports Complex_Main "HOL-Library.Word"
begin

section \<open>Aggregation kinds\<close>

text \<open>
  \<^verbatim>\<open>aggregation::Kind\<close> of \<^verbatim>\<open>cudf/detail/aggregation/aggregation.hpp\<close>: an unscoped
  enumeration, the enumerators in the order of the source. \<^verbatim>\<open>SUM\<close>, \<^verbatim>\<open>MIN\<close> and
  \<^verbatim>\<open>MAX\<close> are written \<open>SUM_agg\<close>, \<open>MIN_agg\<close> and \<open>MAX_agg\<close>, since HOL reads the plain
  words as binders.
\<close>

datatype Kind = SUM_agg | MIN_agg | MAX_agg | COUNT | MEAN | MEDIAN | QUANTILE | ARGMAX | ARGMIN | PTX | CUDA

text \<open>
  A run-time value of the enumeration is an integer; the enumerators are numbered from 0
  in the order of their declaration. A value can be that of no enumerator.
\<close>

primrec Kind_value :: "Kind \<Rightarrow> int" where
  "Kind_value SUM_agg = 0"
| "Kind_value MIN_agg = 1"
| "Kind_value MAX_agg = 2"
| "Kind_value COUNT = 3"
| "Kind_value MEAN = 4"
| "Kind_value MEDIAN = 5"
| "Kind_value QUANTILE = 6"
| "Kind_value ARGMAX = 7"
| "Kind_value ARGMIN = 8"
| "Kind_value PTX = 9"
| "Kind_value CUDA = 10"

section \<open>Types of the C++ program\<close>

text \<open>
  The types a template parameter \<^verbatim>\<open>Source\<close> can be bound to and a member alias
  \<^verbatim>\<open>type\<close> can denote: \<^verbatim>\<open>void\<close>, the integral and floating-point types of the
  language, the timestamp types of the column type system, any other class type (named),
  and the class \<^verbatim>\<open>target_type_impl<Source, k>\<close> itself, which is a type like any other.
\<close>

datatype ctype =
    Void
  | Bool | Int8 | Int16 | Int32 | Int64
  | UInt8 | UInt16 | UInt32 | UInt64
  | Float | Double
  | Timestamp_D | Timestamp_s | Timestamp_ms | Timestamp_us | Timestamp_ns
  | Class string
  | Struct_target_type_impl ctype Kind

text \<open>\<^verbatim>\<open>std::is_void\<close>, \<^verbatim>\<open>std::is_integral\<close> and \<^verbatim>\<open>std::is_floating_point\<close>.\<close>

fun is_void :: "ctype \<Rightarrow> bool" where
  "is_void Void = True"
| "is_void _ = False"

fun is_integral :: "ctype \<Rightarrow> bool" where
  "is_integral Bool = True"
| "is_integral Int8 = True"
| "is_integral Int16 = True"
| "is_integral Int32 = True"
| "is_integral Int64 = True"
| "is_integral UInt8 = True"
| "is_integral UInt16 = True"
| "is_integral UInt32 = True"
| "is_integral UInt64 = True"
| "is_integral _ = False"

fun is_floating_point :: "ctype \<Rightarrow> bool" where
  "is_floating_point Float = True"
| "is_floating_point Double = True"
| "is_floating_point _ = False"

text \<open>
  Modelled from the spec: \<^verbatim>\<open>is_timestamp<T>()\<close> is declared in
  \<^verbatim>\<open>cudf/utilities/traits.hpp\<close>, which is not among the sources. It holds of the
  timestamp variants of the column type system and of nothing else.
\<close>

fun is_timestamp :: "ctype \<Rightarrow> bool" where
  "is_timestamp Timestamp_D = True"
| "is_timestamp Timestamp_s = True"
| "is_timestamp Timestamp_ms = True"
| "is_timestamp Timestamp_us = True"
| "is_timestamp Timestamp_ns = True"
| "is_timestamp _ = False"

text \<open>
  Modelled from the spec: \<^verbatim>\<open>cudf::size_type\<close> is declared in \<^verbatim>\<open>cudf/types.hpp\<close>,
  which is not among the sources. The engine's count and index type is the 32-bit signed
  integer.
\<close>

definition size_type :: ctype where
  "size_type = Int32"

section \<open>The target type of an aggregation\<close>

text \<open>
  \<^verbatim>\<open>target_type_impl<Source, k, Enable>::type\<close>. Each partial specialisation is one
  equation, in the order of the source; the primary template, which gives \<^verbatim>\<open>void\<close>,
  is the last equation and the last branch of \<open>SUM_agg\<close>. The three specialisations for
  \<^verbatim>\<open>SUM\<close> are enabled by \<^verbatim>\<open>std::enable_if_t\<close> on \<^verbatim>\<open>is_integral\<close>,
  \<^verbatim>\<open>is_floating_point\<close> and \<^verbatim>\<open>is_timestamp\<close>; no type enables two of them (lemma
  \<open>SUM_specialisations_exclusive\<close>), and where none is enabled the primary template is
  chosen. The
  specialisation for \<^verbatim>\<open>MEDIAN\<close> reads
  \<^verbatim>\<open>using type = target_type_impl<Source, aggregation::QUANTILE>;\<close>
  so its member \<^verbatim>\<open>type\<close> names that class, not the class's own member \<^verbatim>\<open>type\<close>.
\<close>

fun target_type_impl :: "ctype \<Rightarrow> Kind \<Rightarrow> ctype" where
  "target_type_impl Source MIN_agg = Source"
| "target_type_impl Source MAX_agg = Source"
| "target_type_impl Source COUNT = size_type"
| "target_type_impl Source MEAN = Double"
| "target_type_impl Source SUM_agg =
     (if is_integral Source then Int64
      else if is_floating_point Source then Source
      else if is_timestamp Source then Source
      else Void)"
| "target_type_impl Source QUANTILE = Double"
| "target_type_impl Source MEDIAN = Struct_target_type_impl Source QUANTILE"
| "target_type_impl Source ARGMAX = size_type"
| "target_type_impl Source ARGMIN = size_type"
| "target_type_impl Source _ = Void"

text \<open>\<^verbatim>\<open>target_type_t<Source, k>\<close>, the alias of \<^verbatim>\<open>target_type_impl<Source, k>::type\<close>.\<close>

definition target_type_t :: "ctype \<Rightarrow> Kind \<Rightarrow> ctype" where
  "target_type_t Source k = target_type_impl Source k"

text \<open>The template \<^verbatim>\<open>is_valid_aggregation<Source, k>()\<close>.\<close>

definition is_valid_aggregation :: "ctype \<Rightarrow> Kind \<Rightarrow> bool" where
  "is_valid_aggregation Source k = (\<not> is_void (target_type_t Source k))"

section \<open>Sentinels\<close>

text \<open>
  \<^verbatim>\<open>constexpr size_type ARGMAX_SENTINEL{-1};\<close> and
  \<^verbatim>\<open>constexpr size_type ARGMIN_SENTINEL{-1};\<close>: values of the 32-bit signed
  \<^verbatim>\<open>size_type\<close>, read as signed by \<open>sint\<close>.
\<close>

definition ARGMAX_SENTINEL :: "32 word" where
  "ARGMAX_SENTINEL = - 1"

definition ARGMIN_SENTINEL :: "32 word" where
  "ARGMIN_SENTINEL = - 1"

section \<open>Aggregation descriptors\<close>

text \<open>The base class \<^verbatim>\<open>aggregation\<close> and its constructor \<^verbatim>\<open>aggregation(Kind a) : kind{a}\<close>.\<close>

record aggregation =
  kind :: Kind

definition aggregation :: "Kind \<Rightarrow> aggregation" where
  "aggregation a = \<lparr>kind = a\<rparr>"

text \<open>
  Modelled from the spec: \<^verbatim>\<open>experimental::interpolation\<close> is declared in
  \<^verbatim>\<open>cudf/types.hpp\<close>, which is not among the sources. The interpolation modes are
  nearest, linear, lower, higher and midpoint.
\<close>

datatype interpolation = NEAREST | LINEAR | LOWER | HIGHER | MIDPOINT

text \<open>
  \<^verbatim>\<open>struct quantile_aggregation : aggregation\<close>, with the members \<^verbatim>\<open>_quantiles\<close> and
  \<^verbatim>\<open>_interpolation\<close> (written without the leading underscore). The elements of
  \<^verbatim>\<open>_quantiles\<close> are \<^verbatim>\<open>double\<close>s that the class only stores: their type is the
  parameter \<open>'d\<close>.
\<close>

record 'd quantile_aggregation = aggregation +
  quantiles :: "'d list"
  interpolation :: interpolation

text \<open>
  C++ reports a failed construction by an exception, so the result of a constructor is
  either an error or the object. A descriptor of the error is the message of
  \<^verbatim>\<open>cudf::logic_error\<close>, the exception that \<^verbatim>\<open>CUDF_FAIL\<close> throws; \<open>device_trap\<close> is
  the trap that ends a device thread in \<^verbatim>\<open>release_assert\<close>, and \<open>terminate\<close> is
  \<^verbatim>\<open>std::terminate\<close>, called when an exception leaves a \<^verbatim>\<open>noexcept\<close> function.
\<close>

datatype error = logic_error string | device_trap | terminate

text \<open>
  The constructor
  \<^verbatim>\<open>quantile_aggregation(std::vector<double> const& q, experimental::interpolation i)
     : aggregation{QUANTILE}, _quantiles{q}, _interpolation{i} {}\<close>
  copies its arguments into the members; its body is empty and it throws nothing.
\<close>

definition quantile_aggregation :: "'d list \<Rightarrow> interpolation \<Rightarrow> error + 'd quantile_aggregation" where
  "quantile_aggregation q i =
     Inr (aggregation.extend (aggregation QUANTILE)
            (quantile_aggregation.fields q i))"

section \<open>Dispatch\<close>

text \<open>
  The function \<^verbatim>\<open>aggregation_dispatcher\<close> is compiled twice: for the host, where
  \<^verbatim>\<open>__CUDA_ARCH__\<close> is not defined, and for the device, where it is.
\<close>

datatype exec_path = Host | Device

text \<open>
  Modelled from the spec: the macros \<^verbatim>\<open>CUDF_FAIL\<close> (\<^verbatim>\<open>cudf/utilities/error.hpp\<close>) and
  \<^verbatim>\<open>release_assert\<close> (\<^verbatim>\<open>cudf/detail/utilities/release_assert.cuh\<close>) are not among the
  sources. \<^verbatim>\<open>CUDF_FAIL(reason)\<close> raises a structured error that carries the reason;
  \<^verbatim>\<open>release_assert(e)\<close> with a false \<open>e\<close> ends the execution unit at once, which is
  the error \<open>device_trap\<close>.
\<close>

definition CUDF_FAIL :: "string \<Rightarrow> error" where
  "CUDF_FAIL reason = logic_error reason"

text \<open>
  An operation body is a callable with a templated \<^verbatim>\<open>operator()\<close>: a function of the
  template arguments, of the forwarded arguments \<open>args\<close> and of the state \<open>s\<close> it may
  change. It returns a value or throws, and leaves a new state in either case.

  \<^verbatim>\<open>aggregation_dispatcher(k, f, args...)\<close>: the \<^verbatim>\<open>switch\<close> has a \<^verbatim>\<open>case\<close> for
  each of the first nine enumerators, in the order below, and a \<^verbatim>\<open>default\<close>. On the
  host the \<^verbatim>\<open>default\<close> branch is \<^verbatim>\<open>CUDF_FAIL("Unsupported aggregation.")\<close>. On the
  device it is \<^verbatim>\<open>release_assert(false && "Unsuported aggregation.")\<close>, whose argument
  is false; the \<^verbatim>\<open>return return_type();\<close> after it is, in the words of the source,
  never reached.
\<close>

definition aggregation_dispatcher ::
  "exec_path \<Rightarrow> int \<Rightarrow> (Kind \<Rightarrow> 'a \<Rightarrow> 's \<Rightarrow> (error + 'r) \<times> 's) \<Rightarrow> 'a \<Rightarrow> 's \<Rightarrow> (error + 'r) \<times> 's" where
  "aggregation_dispatcher path k f args s =
     (if k = Kind_value SUM_agg then f SUM_agg args s
      else if k = Kind_value MIN_agg then f MIN_agg args s
      else if k = Kind_value MAX_agg then f MAX_agg args s
      else if k = Kind_value COUNT then f COUNT args s
      else if k = Kind_value MEAN then f MEAN args s
      else if k = Kind_value MEDIAN then f MEDIAN args s
      else if k = Kind_value QUANTILE then f QUANTILE args s
      else if k = Kind_value ARGMAX then f ARGMAX args s
      else if k = Kind_value ARGMIN then f ARGMIN args s
      else (case path of
              Host \<Rightarrow> (Inl (CUDF_FAIL ''Unsupported aggregation.''), s)
            | Device \<Rightarrow> (Inl device_trap, s)))"

text \<open>The enumerators that have a \<^verbatim>\<open>case\<close> label in the \<^verbatim>\<open>switch\<close>.\<close>

definition dispatch_kinds :: "Kind set" where
  "dispatch_kinds = {SUM_agg, MIN_agg, MAX_agg, COUNT, MEAN, MEDIAN, QUANTILE, ARGMAX, ARGMIN}"

text \<open>
  A function declared \<^verbatim>\<open>noexcept\<close>: an exception that would leave it ends the program
  by \<^verbatim>\<open>std::terminate\<close>; any other outcome passes through.
\<close>

fun noexcept :: "(error + 'r) \<times> 's \<Rightarrow> (error + 'r) \<times> 's" where
  "noexcept (Inl (logic_error m), s) = (Inl terminate, s)"
| "noexcept (r, s) = (r, s)"

text \<open>
  \<^verbatim>\<open>dispatch_aggregation<Element>::operator()<k>(f, args...) noexcept\<close>, which calls
  \<^verbatim>\<open>f.template operator()<Element, k>(args...)\<close>. The callable \<open>f\<close> and its arguments
  are what \<^verbatim>\<open>aggregation_dispatcher\<close> forwards to it.
\<close>

definition dispatch_aggregation ::
  "ctype \<Rightarrow> Kind \<Rightarrow> (ctype \<Rightarrow> Kind \<Rightarrow> 'a \<Rightarrow> 's \<Rightarrow> (error + 'r) \<times> 's) \<times> 'a \<Rightarrow> 's \<Rightarrow> (error + 'r) \<times> 's" where
  "dispatch_aggregation Element k fargs s =
     (case fargs of (f, args) \<Rightarrow> noexcept (f Element k args s))"

text \<open>\<^verbatim>\<open>dispatch_source::operator()<Element>(k, f, args...) noexcept\<close>.\<close>

definition dispatch_source ::
  "exec_path \<Rightarrow> ctype \<Rightarrow> int \<Rightarrow> (ctype \<Rightarrow> Kind \<Rightarrow> 'a \<Rightarrow> 's \<Rightarrow> (error + 'r) \<times> 's) \<Rightarrow> 'a \<Rightarrow> 's \<Rightarrow> (error + 'r) \<times> 's" where
  "dispatch_source path Element k f args s =
     noexcept (aggregation_dispatcher path k (dispatch_aggregation Element) (f, args) s)"

text \<open>
  Modelled from the spec: \<^verbatim>\<open>type_dispatcher\<close> is declared in
  \<^verbatim>\<open>cudf/utilities/type_dispatcher.hpp\<close>, which is not among the sources. It is the
  type-tag dispatch primitive of the column type system: it resolves a run-time type tag
  to the element type it stands for and invokes the callable instantiated at that type.
  The table from tags to element types, \<open>id_to_type\<close>, is a parameter.
\<close>

definition type_dispatcher :: "('t \<Rightarrow> ctype) \<Rightarrow> 't \<Rightarrow> (ctype \<Rightarrow> 'x) \<Rightarrow> 'x" where
  "type_dispatcher id_to_type dtype f = f (id_to_type dtype)"

text \<open>
  \<^verbatim>\<open>dispatch_type_and_aggregation(type, k, f, args...)\<close>, which returns
  \<^verbatim>\<open>type_dispatcher(type, dispatch_source{}, k, f, args...)\<close>.
\<close>

definition dispatch_type_and_aggregation ::
  "('t \<Rightarrow> ctype) \<Rightarrow> exec_path \<Rightarrow> 't \<Rightarrow> int \<Rightarrow> (ctype \<Rightarrow> Kind \<Rightarrow> 'a \<Rightarrow> 's \<Rightarrow> (error + 'r) \<times> 's) \<Rightarrow> 'a \<Rightarrow> 's \<Rightarrow> (error + 'r) \<times> 's" where
  "dispatch_type_and_aggregation id_to_type path dtype k f args s =
     type_dispatcher id_to_type dtype (\<lambda>Element. dispatch_source path Element k f args s)"

section \<open>Properties of the resolver\<close>

text \<open>
  The three conditions that enable a \<^verbatim>\<open>SUM\<close> specialisation exclude one another, so at
  most one specialisation is enabled for a type and the choice among them is never
  ambiguous.
\<close>

lemma SUM_specialisations_exclusive:
  "\<not> (is_integral T \<and> is_floating_point T)"
  "\<not> (is_integral T \<and> is_timestamp T)"
  "\<not> (is_floating_point T \<and> is_timestamp T)"
  by (cases T; simp)+

lemma is_void_iff: "is_void T \<longleftrightarrow> T = Void"
  by (cases T) simp_all

lemma target_type_t_Void_iff:
  "target_type_t T K = Void \<longleftrightarrow>
     (K = SUM_agg \<and> \<not> is_integral T \<and> \<not> is_floating_point T \<and> \<not> is_timestamp T)
     \<or> ((K = MIN_agg \<or> K = MAX_agg) \<and> T = Void)
     \<or> K = PTX \<or> K = CUDA"
  by (cases K; cases T) (simp_all add: target_type_t_def size_type_def)

text \<open>
  Claim C1, at the element type \<^verbatim>\<open>int32_t\<close>. The claim has \<open>(T, MEDIAN)\<close> resolve to
  \<^verbatim>\<open>double\<close>, as \<open>(T, QUANTILE)\<close> does. The code resolves \<open>(int32, MEDIAN)\<close> to the
  class \<^verbatim>\<open>target_type_impl<int32_t, QUANTILE>\<close>, which is not \<^verbatim>\<open>double\<close>; the member
  \<^verbatim>\<open>type\<close> of that class, which is what \<open>(int32, QUANTILE)\<close> resolves to, is
  \<^verbatim>\<open>double\<close>.
\<close>

theorem C1_median_int32_is_trait_class:
  "target_type_t Int32 MEDIAN = Struct_target_type_impl Int32 QUANTILE
   \<and> target_type_t Int32 MEDIAN \<noteq> Double
   \<and> target_type_t Int32 MEDIAN \<noteq> target_type_t Int32 QUANTILE
   \<and> target_type_t Int32 QUANTILE = Double"
  by (simp add: target_type_t_def)

text \<open>
  Claim C2. For every element type \<open>T\<close> and every kind \<open>K\<close>, the validity oracle
  \<open>is_valid_aggregation T K\<close> is true if and only if the resolver yields a mapping for
  \<open>(T, K)\<close>, that is, the resolved target type is not \<^verbatim>\<open>void\<close>.
\<close>

theorem C2_oracle_agrees_with_resolver:
  "is_valid_aggregation T K \<longleftrightarrow> target_type_t T K \<noteq> Void"
  by (simp add: is_valid_aggregation_def is_void_iff)

text \<open>
  Claim C3. For every element type \<open>T\<close> the resolver maps \<open>(T, MIN)\<close> to \<open>T\<close> and
  \<open>(T, MAX)\<close> to \<open>T\<close>: the target type of a minimum or maximum is the element type.
\<close>

theorem C3_min_max_identity:
  "target_type_t T MIN_agg = T \<and> target_type_t T MAX_agg = T"
  by (simp add: target_type_t_def)

text \<open>
  Claim C4. The resolver for \<open>SUM\<close> maps every integral element type to the 64-bit signed
  integer, every floating-point element type to itself, every timestamp element type to
  itself, and yields no mapping (\<^verbatim>\<open>void\<close>) for any other element type.
\<close>

theorem C4_sum_target:
  "(is_integral T \<longrightarrow> target_type_t T SUM_agg = Int64)
   \<and> (is_floating_point T \<longrightarrow> target_type_t T SUM_agg = T)
   \<and> (is_timestamp T \<longrightarrow> target_type_t T SUM_agg = T)
   \<and> (\<not> is_integral T \<and> \<not> is_floating_point T \<and> \<not> is_timestamp T
        \<longrightarrow> target_type_t T SUM_agg = Void)"
  using SUM_specialisations_exclusive [of T] by (auto simp: target_type_t_def)

theorem C4_sum_target_witness:
  "is_integral Int32 \<and> target_type_t Int32 SUM_agg = Int64
   \<and> is_floating_point Double \<and> target_type_t Double SUM_agg = Double
   \<and> is_timestamp Timestamp_ms \<and> target_type_t Timestamp_ms SUM_agg = Timestamp_ms
   \<and> \<not> is_integral (Class ''string_view'') \<and> \<not> is_floating_point (Class ''string_view'')
   \<and> \<not> is_timestamp (Class ''string_view'')
   \<and> target_type_t (Class ''string_view'') SUM_agg = Void"
  using C4_sum_target [of Int32] C4_sum_target [of Double]
    C4_sum_target [of Timestamp_ms] C4_sum_target [of "Class ''string_view''"]
  by simp

text \<open>
  Claim C5. For every element type \<open>T\<close> the resolver maps \<open>(T, COUNT)\<close> to the engine's
  count and index type \<^verbatim>\<open>size_type\<close>, and \<open>(T, MEAN)\<close> and \<open>(T, QUANTILE)\<close> to
  \<^verbatim>\<open>double\<close>, whatever \<open>T\<close> is.
\<close>

theorem C5_count_mean_quantile:
  "target_type_t T COUNT = size_type
   \<and> target_type_t T MEAN = Double
   \<and> target_type_t T QUANTILE = Double"
  by (simp add: target_type_t_def)

text \<open>
  Claim C6. For every element type \<open>T\<close> the resolver maps \<open>(T, ARGMIN)\<close> and
  \<open>(T, ARGMAX)\<close> to \<^verbatim>\<open>size_type\<close>; both sentinels are \<open>-1\<close>; and an index \<open>i\<close> that
  is valid, that is, not negative, differs from both sentinels.
\<close>

theorem C6_arg_index_and_sentinels:
  fixes T :: ctype and i :: "32 word"
  shows "target_type_t T ARGMIN = size_type
   \<and> target_type_t T ARGMAX = size_type
   \<and> sint ARGMAX_SENTINEL = - 1
   \<and> sint ARGMIN_SENTINEL = - 1
   \<and> (0 \<le> sint i \<longrightarrow> i \<noteq> ARGMAX_SENTINEL \<and> i \<noteq> ARGMIN_SENTINEL)"
  by (auto simp: target_type_t_def ARGMAX_SENTINEL_def ARGMIN_SENTINEL_def)

theorem C6_arg_index_and_sentinels_witness:
  "0 \<le> sint (7 :: 32 word)
   \<and> (7 :: 32 word) \<noteq> ARGMAX_SENTINEL \<and> (7 :: 32 word) \<noteq> ARGMIN_SENTINEL
   \<and> target_type_t Double ARGMIN = size_type \<and> target_type_t Double ARGMAX = size_type"
  using C6_arg_index_and_sentinels [of Double 7] by simp

text \<open>
  Claim C8, as the code has it. For every element type \<open>T\<close> the resolver has no mapping
  for the two user-defined kinds \<open>PTX\<close> and \<open>CUDA\<close>: no specialisation of
  \<^verbatim>\<open>target_type_impl\<close> names them, the primary template gives \<^verbatim>\<open>void\<close>, and the
  validity oracle reports both as not valid.
\<close>

theorem C8_udf_kinds_have_no_mapping:
  "target_type_t T PTX = Void \<and> target_type_t T CUDA = Void
   \<and> \<not> is_valid_aggregation T PTX \<and> \<not> is_valid_aggregation T CUDA"
  by (simp add: is_valid_aggregation_def target_type_t_def)

text \<open>
  Claim C8 as the spec states it, that the oracle reports the user-defined kinds as
  valid, fails at the element type \<^verbatim>\<open>int32_t\<close>.
\<close>

theorem C8_udf_kinds_valid_counterexample:
  "\<not> is_valid_aggregation Int32 PTX \<and> \<not> is_valid_aggregation Int32 CUDA"
  by (simp add: is_valid_aggregation_def target_type_t_def)

section \<open>Properties of the dispatcher\<close>

lemma noexcept_idem: "noexcept (noexcept x) = noexcept x"
  by (cases x rule: noexcept.cases) simp_all

lemma noexcept_Inr: "noexcept (Inr r, s) = (Inr r, s)"
  by simp

lemma aggregation_dispatcher_case:
  "K \<in> dispatch_kinds \<Longrightarrow> aggregation_dispatcher path (Kind_value K) f args s = f K args s"
  by (cases K) (simp_all add: aggregation_dispatcher_def dispatch_kinds_def)

lemma aggregation_dispatcher_default:
  assumes "k \<notin> Kind_value ` dispatch_kinds"
  shows "aggregation_dispatcher Host k f args s =
           (Inl (logic_error ''Unsupported aggregation.''), s)"
    and "aggregation_dispatcher Device k f args s = (Inl device_trap, s)"
  using assms by (simp_all add: aggregation_dispatcher_def dispatch_kinds_def CUDF_FAIL_def)

lemma dispatch_type_and_aggregation_case:
  assumes "K \<in> dispatch_kinds"
  shows "dispatch_type_and_aggregation id_to_type path dtype (Kind_value K) f args s =
           noexcept (f (id_to_type dtype) K args s)"
  using assms
  by (simp add: dispatch_type_and_aggregation_def type_dispatcher_def dispatch_source_def
      aggregation_dispatcher_case dispatch_aggregation_def noexcept_idem)

text \<open>
  Through \<^verbatim>\<open>dispatch_type_and_aggregation\<close> the failure of the host path does not reach
  the caller as an exception: \<^verbatim>\<open>dispatch_source::operator()\<close> is \<^verbatim>\<open>noexcept\<close>, so the
  \<^verbatim>\<open>cudf::logic_error\<close> thrown by \<^verbatim>\<open>aggregation_dispatcher\<close> ends in
  \<^verbatim>\<open>std::terminate\<close>. No operation body runs in either case.
\<close>

lemma dispatch_type_and_aggregation_default:
  assumes "k \<notin> Kind_value ` dispatch_kinds"
  shows "dispatch_type_and_aggregation id_to_type Host dtype k f args s = (Inl terminate, s)"
    and "dispatch_type_and_aggregation id_to_type Device dtype k f args s = (Inl device_trap, s)"
  using assms
  by (simp_all add: dispatch_type_and_aggregation_def type_dispatcher_def dispatch_source_def
      aggregation_dispatcher_default)

lemma udf_kinds_not_dispatched:
  "Kind_value PTX \<notin> Kind_value ` dispatch_kinds"
  "Kind_value CUDA \<notin> Kind_value ` dispatch_kinds"
  "999 \<notin> Kind_value ` dispatch_kinds"
  by (simp_all add: dispatch_kinds_def)

text \<open>
  What the two entry points share. For every kind \<open>K\<close> that has a \<^verbatim>\<open>case\<close> label and
  every operation body, \<^verbatim>\<open>aggregation_dispatcher\<close> called with \<open>K\<close> is the call of the
  body instantiated for \<open>K\<close>, on the same arguments and state; through
  \<^verbatim>\<open>dispatch_type_and_aggregation\<close> it is the call of the body instantiated for the
  element type of the run-time tag and for \<open>K\<close>, inside the \<^verbatim>\<open>noexcept\<close> wrappers.
  Called directly with a value \<open>k\<close> that has no \<^verbatim>\<open>case\<close> label,
  \<^verbatim>\<open>aggregation_dispatcher\<close> runs no body and leaves the state as it was: on the host
  it throws the structured error, on the device it traps.
\<close>

lemma dispatch_supported_and_direct_failure:
  fixes f :: "Kind \<Rightarrow> 'a \<Rightarrow> 's \<Rightarrow> (error + 'r) \<times> 's"
    and g :: "ctype \<Rightarrow> Kind \<Rightarrow> 'a \<Rightarrow> 's \<Rightarrow> (error + 'r) \<times> 's"
    and id_to_type :: "'t \<Rightarrow> ctype"
  shows "(K \<in> dispatch_kinds \<longrightarrow>
            aggregation_dispatcher path (Kind_value K) f args s = f K args s
          \<and> dispatch_type_and_aggregation id_to_type path dtype (Kind_value K) g args s =
              noexcept (g (id_to_type dtype) K args s))
       \<and> (k \<notin> Kind_value ` dispatch_kinds \<longrightarrow>
            aggregation_dispatcher Host k f args s =
              (Inl (logic_error ''Unsupported aggregation.''), s)
          \<and> aggregation_dispatcher Device k f args s = (Inl device_trap, s))"
  by (simp add: aggregation_dispatcher_case dispatch_type_and_aggregation_case
      aggregation_dispatcher_default)

text \<open>
  An instance with bodies that log the template arguments they were instantiated with:
  after a dispatch of \<open>MEDIAN\<close> the log holds exactly that one call, and after a
  dispatch of the value 999 it is still empty.
\<close>

lemma dispatch_supported_and_direct_failure_example:
  "MEDIAN \<in> dispatch_kinds
   \<and> aggregation_dispatcher Host (Kind_value MEDIAN)
        (\<lambda>K a s. (Inr a, K # s)) (3 :: nat) [] = (Inr 3 :: error + nat, [MEDIAN])
   \<and> dispatch_type_and_aggregation (\<lambda>t :: nat. if t = 0 then Int32 else Double) Host 1
        (Kind_value MEDIAN) (\<lambda>T K a s. (Inr a, (T, K) # s)) (3 :: nat) [] =
        (Inr 3 :: error + nat, [(Double, MEDIAN)])
   \<and> 999 \<notin> Kind_value ` dispatch_kinds
   \<and> aggregation_dispatcher Host 999 (\<lambda>K a s. (Inr a, K # s)) (3 :: nat) [] =
        (Inl (logic_error ''Unsupported aggregation.'') :: error + nat, [])
   \<and> aggregation_dispatcher Device 999 (\<lambda>K a s. (Inr a, K # s)) (3 :: nat) [] =
        (Inl device_trap :: error + nat, [])"
proof -
  have in_set: "MEDIAN \<in> dispatch_kinds"
    by (simp add: dispatch_kinds_def)
  have out_of_set: "999 \<notin> Kind_value ` dispatch_kinds"
    by (simp add: dispatch_kinds_def)
  note single = dispatch_supported_and_direct_failure [where K = MEDIAN and k = 999 and path = Host
      and args = "3 :: nat" and s = "[]" and dtype = "1 :: nat"
      and id_to_type = "\<lambda>t :: nat. if t = 0 then Int32 else Double"
      and f = "\<lambda>K a s. (Inr a :: error + nat, K # s)"
      and g = "\<lambda>T K a s. (Inr a :: error + nat, K # s)"]
  note double = dispatch_supported_and_direct_failure [where K = MEDIAN and k = 999 and path = Host
      and args = "3 :: nat" and s = "[]" and dtype = "1 :: nat"
      and id_to_type = "\<lambda>t :: nat. if t = 0 then Int32 else Double"
      and f = "\<lambda>K a s. (Inr a :: error + nat, (Void, K) # s)"
      and g = "\<lambda>T K a s. (Inr a :: error + nat, (T, K) # s)"]
  show ?thesis
    using in_set out_of_set single double by simp
qed

text \<open>
  Claim C7, at a kind without a \<^verbatim>\<open>case\<close> label on the host path of the double
  dispatch. The claim has every dispatch of a supported kind call the body instantiated
  for that kind and for the run-time element type, which holds (lemma
  \<open>dispatch_supported_and_direct_failure\<close>), and has a dispatch of any other kind value
  fail, before a body runs, with a structured error on the host and an abort on the
  device. \<^verbatim>\<open>aggregation_dispatcher\<close> called directly does so: on the host it throws
  the \<^verbatim>\<open>cudf::logic_error\<close> of \<^verbatim>\<open>CUDF_FAIL("Unsupported aggregation.")\<close>. Called
  through \<^verbatim>\<open>dispatch_type_and_aggregation\<close> with the tag of \<^verbatim>\<open>int32_t\<close> and the kind
  \<open>PTX\<close>, or the value 999, the same exception has to leave
  \<^verbatim>\<open>dispatch_source::operator()\<close>, which is \<^verbatim>\<open>noexcept\<close>: the host run ends in
  \<^verbatim>\<open>std::terminate\<close>, which is no structured error. The logging body is not called on
  either way, and the device path traps on both.
\<close>

theorem C7_double_dispatch_host_failure_terminates:
  "dispatch_type_and_aggregation (\<lambda>t :: nat. if t = 0 then Int32 else Double) Host 0
      (Kind_value PTX) (\<lambda>T K a s. (Inr a, (T, K) # s)) (3 :: nat) [] =
      (Inl terminate :: error + nat, [])
   \<and> dispatch_type_and_aggregation (\<lambda>t :: nat. if t = 0 then Int32 else Double) Host 0
      999 (\<lambda>T K a s. (Inr a, (T, K) # s)) (3 :: nat) [] =
      (Inl terminate :: error + nat, [])
   \<and> terminate \<noteq> logic_error ''Unsupported aggregation.''
   \<and> aggregation_dispatcher Host (Kind_value PTX)
      (\<lambda>K a s. (Inr a, K # s)) (3 :: nat) [] =
      (Inl (logic_error ''Unsupported aggregation.'') :: error + nat, [])
   \<and> dispatch_type_and_aggregation (\<lambda>t :: nat. if t = 0 then Int32 else Double) Device 0
      (Kind_value PTX) (\<lambda>T K a s. (Inr a, (T, K) # s)) (3 :: nat) [] =
      (Inl device_trap :: error + nat, [])"
  by (simp add: dispatch_type_and_aggregation_def type_dispatcher_def dispatch_source_def
      aggregation_dispatcher_def CUDF_FAIL_def)

text \<open>
  Claim C10. \<open>PTX\<close> and \<open>CUDA\<close> are enumerators of \<open>Kind\<close> without a \<^verbatim>\<open>case\<close> label.
  Dispatching either takes the \<^verbatim>\<open>default\<close> branch, as the out-of-range value 999
  does: the structured error on the host, the trap on the device, the state unchanged
  and the result the same for every operation body, so that none is invoked.
\<close>

theorem C10_udf_kinds_take_default_branch:
  fixes f :: "Kind \<Rightarrow> 'a \<Rightarrow> 's \<Rightarrow> (error + 'r) \<times> 's"
  shows "aggregation_dispatcher Host (Kind_value PTX) f args s =
           (Inl (logic_error ''Unsupported aggregation.''), s)
       \<and> aggregation_dispatcher Host (Kind_value CUDA) f args s =
           (Inl (logic_error ''Unsupported aggregation.''), s)
       \<and> aggregation_dispatcher Device (Kind_value PTX) f args s = (Inl device_trap, s)
       \<and> aggregation_dispatcher Device (Kind_value CUDA) f args s = (Inl device_trap, s)
       \<and> aggregation_dispatcher path (Kind_value PTX) f args s =
           aggregation_dispatcher path 999 f args s
       \<and> aggregation_dispatcher path (Kind_value CUDA) f args s =
           aggregation_dispatcher path 999 f args s"
proof -
  note ptx = aggregation_dispatcher_default [OF udf_kinds_not_dispatched(1), of f args s]
  note cuda = aggregation_dispatcher_default [OF udf_kinds_not_dispatched(2), of f args s]
  note other = aggregation_dispatcher_default [OF udf_kinds_not_dispatched(3), of f args s]
  show ?thesis
    using ptx cuda other by (cases path) simp_all
qed

section \<open>Properties of the descriptors\<close>

text \<open>
  Claim C9, as the code has it. Constructing a quantile descriptor succeeds for every
  list of fractions, the empty one too, and for every interpolation: the descriptor has
  the kind \<open>QUANTILE\<close> and holds the fractions and the interpolation it was given.
\<close>

theorem C9_quantile_construction_succeeds:
  "quantile_aggregation q i = Inr \<lparr>kind = QUANTILE, quantiles = q, interpolation = i\<rparr>"
  by (simp add: quantile_aggregation_def aggregation_def aggregation.extend_def
      quantile_aggregation.fields_def)

text \<open>
  Claim C9 as the spec states it, that construction from an empty list of fractions
  fails, is false: the constructor returns a descriptor with no fractions.
\<close>

theorem C9_empty_fractions_counterexample:
  "\<not> isl (quantile_aggregation ([] :: real list) LINEAR)
   \<and> quantile_aggregation ([] :: real list) LINEAR =
       Inr \<lparr>kind = QUANTILE, quantiles = [], interpolation = LINEAR\<rparr>"
  by (simp add: quantile_aggregation_def aggregation_def aggregation.extend_def
      quantile_aggregation.fields_def)

end
